theory Spec2Isabelle
  imports Complex_Main "HOL-Library.Sublist"
begin

section \<open>PRBot: data model\<close>

text \<open>
  The script \<^verbatim>\<open>prbot.py\<close> talks to the outside world through the clock, the file
  system, \<^verbatim>\<open>requests\<close>, \<^verbatim>\<open>jwt\<close>, \<^verbatim>\<open>jinja2\<close> and PyGithub. Each such call is
  modelled by an oracle (a field of the record \<open>world\<close>, or a field of the object the
  call is a method of) that gives the call's outcome: \<open>Inl e\<close> when it raises \<open>e\<close>,
  \<open>Inr v\<close> when it returns \<open>v\<close>. Every function of the script returns, next to its
  result, the list of the external calls and \<^verbatim>\<open>print\<close>s it made, in order.
\<close>

datatype exc =
    ValueError
  | KeyError
  | FileNotFoundError
  | JSONDecodeError
  | Installation_id_failed int string
  | Installation_token_failed int string
  | Raised string

text \<open>
  The \<^verbatim>\<open>status\<close> dictionary. The script itself only ever stores an integer under
  \<^verbatim>\<open>pull_req_number\<close> and \<^verbatim>\<open>None\<close> or a string under the two token keys, and the
  fields are typed so. For \<open>pull_req_number\<close>, \<open>None\<close> is a missing key; for the two
  token fields \<open>None\<close> stands for a missing key as well as for the value
  \<^verbatim>\<open>None\<close> (the guard of \<^verbatim>\<open>get_or_refresh_token\<close> treats both alike).
\<close>

record status =
  pull_req_number :: "int option"
  installation_token :: "string option"
  token_expires_at :: "string option"

record response =
  status_code :: int
  text_of :: string
  json :: "exc + (string \<rightharpoonup> string)"

text \<open>
  A pull request object of PyGithub: its attributes, and the outcome of each of the
  three methods the script calls on it. \<open>get_issue_comments\<close> gives the bodies of the
  comments (fetching the list and iterating over it is one outcome);
  \<open>edit_closed\<close> is \<^verbatim>\<open>pull.edit(state="closed")\<close>.
\<close>

record pull =
  number :: int
  login :: string
  title :: string
  closed_at :: "string option"
  get_issue_comments :: "exc + string list"
  create_issue_comment :: "string \<Rightarrow> exc + unit"
  edit_closed :: "exc + unit"

text \<open>
  \<open>get_pulls\<close> is the listing \<^verbatim>\<open>repo.get_pulls(sort='created')\<close>; the loop of
  \<^verbatim>\<open>poll\<close> walks it in reverse. The listing is fetched while the loop runs; it is
  modelled as failing before the first item or not at all.
\<close>

record repo =
  get_pulls :: "exc + pull list"

datatype event =
    Open_read string
  | Requests_get string string
  | Requests_post string string
  | Json_load string
  | Template_load string
  | Get_repo string
  | Print_banner
  | Get_pulls
  | Print_pull int string string
  | Print_break int
  | Render int string
  | Print_closed_skip
  | Get_issue_comments int
  | Print_similar_skip
  | Create_issue_comment int string
  | Edit_closed int
  | Print_posted_closed
  | Print_posted
  | Print_error exc
  | Json_dump string status

text \<open>
  The outside world of one run. \<open>time_refresh\<close> is the reading of \<^verbatim>\<open>time.time()\<close>
  in \<^verbatim>\<open>get_or_refresh_token\<close>, \<open>time_mint\<close> the later one in
  \<^verbatim>\<open>get_installation_token\<close>; a reading is taken as the real number the float
  denotes. \<open>strptime_timegm s\<close> is
  \<^verbatim>\<open>calendar.timegm(time.strptime(s, "%Y-%m-%dT%H:%M:%SZ"))\<close>, which raises
  \<open>ValueError\<close> on a string that does not match. \<open>requests_get\<close> and \<open>requests_post\<close>
  take the URL and the bearer token of the \<^verbatim>\<open>Authorization\<close> header; \<open>jwt_encode\<close>
  takes \<^verbatim>\<open>iat\<close>, \<^verbatim>\<open>exp\<close>, \<^verbatim>\<open>iss\<close> and the key. \<open>template_load p\<close> is
  \<^verbatim>\<open>jinja2.Template(open(p).read())\<close>: it gives the function
  \<^verbatim>\<open>username \<mapsto> msg.render(username=username)\<close>. \<open>get_repo token name\<close> is
  \<^verbatim>\<open>github.MainClass.Github(token).get_repo(name)\<close>.
\<close>

record world =
  time_refresh :: real
  strptime_timegm :: "string \<Rightarrow> exc + int"
  open_read :: "string \<Rightarrow> exc + string"
  time_mint :: real
  jwt_encode :: "int \<Rightarrow> int \<Rightarrow> string \<Rightarrow> string \<Rightarrow> exc + string"
  requests_get :: "string \<Rightarrow> string \<Rightarrow> exc + response"
  requests_post :: "string \<Rightarrow> string \<Rightarrow> exc + response"
  template_load :: "string \<Rightarrow> exc + (string \<Rightarrow> exc + string)"
  get_repo :: "string \<Rightarrow> string \<Rightarrow> exc + repo"

section \<open>Calls that may raise, with their trace\<close>

type_synonym 'a io = "(exc + 'a) \<times> event list"

definition io_bind :: "'a io \<Rightarrow> ('a \<Rightarrow> 'b io) \<Rightarrow> 'b io" where
  "io_bind m f =
     (case m of
        (Inl e, tr) \<Rightarrow> (Inl e, tr)
      | (Inr x, tr) \<Rightarrow> (case f x of (r, tr') \<Rightarrow> (r, tr @ tr')))"

definition call :: "event \<Rightarrow> exc + 'a \<Rightarrow> 'a io" where
  "call ev r = (r, [ev])"

definition pure_call :: "exc + 'a \<Rightarrow> 'a io" where
  "pure_call r = (r, [])"

definition raise :: "exc \<Rightarrow> 'a io" where
  "raise e = (Inl e, [])"

text \<open>\<^verbatim>\<open>response.json()[k]\<close>: the body may fail to decode, the key may be missing.\<close>

definition json_item :: "response \<Rightarrow> string \<Rightarrow> exc + string" where
  "json_item r k =
     (case json r of
        Inl e \<Rightarrow> Inl e
      | Inr d \<Rightarrow> (case d k of None \<Rightarrow> Inl KeyError | Some v \<Rightarrow> Inr v))"

text \<open>\<^verbatim>\<open>int(x)\<close> on a float truncates towards zero.\<close>

definition py_int :: "real \<Rightarrow> int" where
  "py_int x = (if 0 \<le> x then \<lfloor>x\<rfloor> else \<lceil>x\<rceil>)"

section \<open>Credentials\<close>

definition get_installation_token ::
  "world \<Rightarrow> string \<Rightarrow> string \<Rightarrow> string \<Rightarrow> (string \<times> string) io" where
  "get_installation_token w client_id private_key_path repo_name =
     (let org_name = takeWhile (\<lambda>c. c \<noteq> CHR ''/'') repo_name in
      io_bind (call (Open_read private_key_path) (open_read w private_key_path))
        (\<lambda>private_key.
      let now = py_int (time_mint w) in
      io_bind (pure_call (jwt_encode w (now - 60) (now + 10 * 60) client_id private_key))
        (\<lambda>jwt_token.
      let url = ''https://api.github.com/orgs/'' @ org_name @ ''/installation'' in
      io_bind (call (Requests_get url jwt_token) (requests_get w url jwt_token))
        (\<lambda>response.
      if status_code response \<noteq> 200
      then raise (Installation_id_failed (status_code response) (text_of response))
      else
      io_bind (pure_call (json_item response ''id''))
        (\<lambda>installation_id.
      let url' = ''https://api.github.com/app/installations/'' @ installation_id
                 @ ''/access_tokens'' in
      io_bind (call (Requests_post url' jwt_token) (requests_post w url' jwt_token))
        (\<lambda>response'.
      if status_code response' \<noteq> 201
      then raise (Installation_token_failed (status_code response') (text_of response'))
      else
      io_bind (pure_call (json_item response' ''token''))
        (\<lambda>token.
      io_bind (pure_call (json_item response' ''expires_at''))
        (\<lambda>expires_at.
      (Inr (token, expires_at), [])))))))))"

text \<open>Truth value of a dictionary entry that holds \<^verbatim>\<open>None\<close> or a string.\<close>

fun truthy :: "string option \<Rightarrow> bool" where
  "truthy None = False"
| "truthy (Some s) = (s \<noteq> [])"

text \<open>Lines 113 to 120: mint a token, store it and its expiry, return it.\<close>

definition refresh ::
  "world \<Rightarrow> status \<Rightarrow> string \<Rightarrow> string \<Rightarrow> string \<Rightarrow> (exc + string) \<times> status \<times> event list" where
  "refresh w st client_id private_key_path repo_name =
     (case get_installation_token w client_id private_key_path repo_name of
        (Inl e, tr) \<Rightarrow> (Inl e, st, tr)
      | (Inr (token, expires_at), tr) \<Rightarrow>
          (Inr token,
           st\<lparr>installation_token := Some token, token_expires_at := Some expires_at\<rparr>,
           tr))"

definition get_or_refresh_token ::
  "world \<Rightarrow> status \<Rightarrow> string \<Rightarrow> string \<Rightarrow> string \<Rightarrow> (exc + string) \<times> status \<times> event list" where
  "get_or_refresh_token w st client_id private_key_path repo_name =
     (let current_time = time_refresh w in
      if truthy (installation_token st) \<and> truthy (token_expires_at st)
      then
        (case strptime_timegm w (the (token_expires_at st)) of
           Inr expires_at_timestamp \<Rightarrow>
             if real_of_int expires_at_timestamp > current_time + 300
             then (Inr (the (installation_token st)), st, [])
             else refresh w st client_id private_key_path repo_name
         | Inl e \<Rightarrow>
             if e = ValueError \<or> e = KeyError
             then refresh w st client_id private_key_path repo_name
             else (Inl e, st, []))
      else refresh w st client_id private_key_path repo_name)"

section \<open>Polling\<close>

text \<open>
  \<^verbatim>\<open>str.strip()\<close> removes the white space at both ends. Strings are lists of
  8-bit characters here; below 256 the characters Python counts as white space are
  the codes 9 to 13, 28 to 32, 133 and 160.
\<close>

definition isspace :: "char \<Rightarrow> bool" where
  "isspace c = (of_char c \<in> {9, 10, 11, 12, 13, 28, 29, 30, 31, 32, 133, 160 :: nat})"

definition strip :: "string \<Rightarrow> string" where
  "strip s = rev (dropWhile isspace (rev (dropWhile isspace s)))"

text \<open>\<^verbatim>\<open>t in s\<close> on strings: \<open>t\<close> occurs in \<open>s\<close> as a contiguous piece.\<close>

fun py_in :: "string \<Rightarrow> string \<Rightarrow> bool" where
  "py_in t [] = (t = [])"
| "py_in t (c # cs) = (prefix t (c # cs) \<or> py_in t cs)"

text \<open>
  The body of the \<^verbatim>\<open>try\<close> statement of \<^verbatim>\<open>poll\<close> together with its bare
  \<^verbatim>\<open>except\<close> clause (lines 132 to 158), for one pull request and its rendered
  comment. Nothing escapes the bare \<^verbatim>\<open>except\<close>, so the result is the status and
  the trace only. The first argument is the global \<^verbatim>\<open>AUTO_CLOSE\<close>.
\<close>

definition try_block :: "bool \<Rightarrow> status \<Rightarrow> pull \<Rightarrow> string \<Rightarrow> status \<times> event list" where
  "try_block auto_close st p comment =
     (if closed_at p \<noteq> None then (st, [Print_closed_skip])
      else
        (case get_issue_comments p of
           Inl e \<Rightarrow> (st, [Get_issue_comments (number p), Print_error e])
         | Inr existing_comments \<Rightarrow>
             let comment_text = strip comment in
             if list_ex (\<lambda>body. py_in comment_text body) existing_comments
             then (st, [Get_issue_comments (number p), Print_similar_skip])
             else
               (case create_issue_comment p comment of
                  Inl e \<Rightarrow>
                    (st, [Get_issue_comments (number p),
                          Create_issue_comment (number p) comment, Print_error e])
                | Inr _ \<Rightarrow>
                    if auto_close
                    then
                      (case edit_closed p of
                         Inl e \<Rightarrow>
                           (st, [Get_issue_comments (number p),
                                 Create_issue_comment (number p) comment,
                                 Edit_closed (number p), Print_error e])
                       | Inr _ \<Rightarrow>
                           (case pull_req_number st of
                              None \<Rightarrow>
                                (st, [Get_issue_comments (number p),
                                      Create_issue_comment (number p) comment,
                                      Edit_closed (number p), Print_posted_closed,
                                      Print_error KeyError])
                            | Some m \<Rightarrow>
                                (st\<lparr>pull_req_number := Some (max m (number p))\<rparr>,
                                 [Get_issue_comments (number p),
                                  Create_issue_comment (number p) comment,
                                  Edit_closed (number p), Print_posted_closed])))
                    else
                      (case pull_req_number st of
                         None \<Rightarrow>
                           (st, [Get_issue_comments (number p),
                                 Create_issue_comment (number p) comment,
                                 Print_posted, Print_error KeyError])
                       | Some m \<Rightarrow>
                           (st\<lparr>pull_req_number := Some (max m (number p))\<rparr>,
                            [Get_issue_comments (number p),
                             Create_issue_comment (number p) comment,
                             Print_posted])))))"

text \<open>
  The \<^verbatim>\<open>for\<close> loop of \<^verbatim>\<open>poll\<close> over the pull requests still to come, in the order
  the loop meets them. \<open>msg\<close> is \<^verbatim>\<open>msg.render\<close> as a function of the user name. The
  comparison with the threshold and the rendering stand before the \<^verbatim>\<open>try\<close>: an
  exception of the rendering leaves the loop and the function.
\<close>

fun poll_loop ::
  "bool \<Rightarrow> (string \<Rightarrow> exc + string) \<Rightarrow> int \<Rightarrow> status \<Rightarrow> pull list
     \<Rightarrow> (exc + unit) \<times> status \<times> event list" where
  "poll_loop auto_close msg threshold st [] = (Inr (), st, [])"
| "poll_loop auto_close msg threshold st (p # ps) =
     (if number p \<le> threshold
      then (Inr (), st, [Print_pull (number p) (login p) (title p), Print_break threshold])
      else
        (case msg (login p) of
           Inl e \<Rightarrow>
             (Inl e, st,
              [Print_pull (number p) (login p) (title p), Render (number p) (login p)])
         | Inr comment \<Rightarrow>
             (case try_block auto_close st p comment of
                (st', tr) \<Rightarrow>
                  (case poll_loop auto_close msg threshold st' ps of
                     (r, st'', tr') \<Rightarrow>
                       (r, st'',
                        [Print_pull (number p) (login p) (title p),
                         Render (number p) (login p)] @ tr @ tr')))))"

definition poll ::
  "bool \<Rightarrow> repo \<Rightarrow> (string \<Rightarrow> exc + string) \<Rightarrow> status
     \<Rightarrow> (exc + unit) \<times> status \<times> event list" where
  "poll auto_close rp msg st =
     (case pull_req_number st of
        None \<Rightarrow> (Inl KeyError, st, [])
      | Some threshold \<Rightarrow>
          (case get_pulls rp of
             Inl e \<Rightarrow> (Inl e, st, [Get_pulls])
           | Inr pulls \<Rightarrow>
               (case poll_loop auto_close msg threshold st (rev pulls) of
                  (r, st', tr) \<Rightarrow> (r, st', Get_pulls # tr))))"

section \<open>The run\<close>

text \<open>
  The settings read from the environment (lines 30 to 35). The loop of lines 38 to 41
  ends the script with \<open>ValueError\<close> before any function runs when one of the five
  required settings is missing or empty, so the functions below only ever see settings
  that passed it. The status file is absent, present but not JSON, or holds a
  dictionary; \<^verbatim>\<open>json.dump\<close> is taken to write the whole dictionary.
\<close>

record config =
  GITHUB_APP_CLIENT_ID :: string
  GITHUB_APP_PRIVATE_KEY_PATH :: string
  MESSAGE_PATH :: string
  STATUS_FILE :: string
  REPO_NAME :: string
  AUTO_CLOSE :: bool

datatype state_file = No_file | Garbage | Json status

definition json_load :: "state_file \<Rightarrow> exc + status" where
  "json_load f =
     (case f of
        No_file \<Rightarrow> Inl FileNotFoundError
      | Garbage \<Rightarrow> Inl JSONDecodeError
      | Json st \<Rightarrow> Inr st)"

text \<open>
  The three \<^verbatim>\<open>setdefault\<close> calls: only a missing \<^verbatim>\<open>pull_req_number\<close> changes, the
  default of the two token keys being \<^verbatim>\<open>None\<close>.
\<close>

definition setdefaults :: "status \<Rightarrow> status" where
  "setdefaults st =
     (case pull_req_number st of
        None \<Rightarrow> st\<lparr>pull_req_number := Some 0\<rparr>
      | Some _ \<Rightarrow> st)"

text \<open>
  Lines 161 to 169: the status a run starts from. Only \<^verbatim>\<open>FileNotFoundError\<close> is
  caught, and gives the empty dictionary.
\<close>

definition load_status :: "state_file \<Rightarrow> exc + status" where
  "load_status f =
     (case json_load f of
        Inl e \<Rightarrow>
          if e = FileNotFoundError
          then Inr (setdefaults \<lparr>pull_req_number = None, installation_token = None,
                                 token_expires_at = None\<rparr>)
          else Inl e
      | Inr st \<Rightarrow> Inr (setdefaults st))"

definition main ::
  "config \<Rightarrow> world \<Rightarrow> state_file \<Rightarrow> (exc + unit) \<times> state_file \<times> event list" where
  "main cfg w f =
     (case load_status f of
        Inl e \<Rightarrow> (Inl e, f, [Json_load (STATUS_FILE cfg)])
      | Inr status0 \<Rightarrow>
          (case get_or_refresh_token w status0 (GITHUB_APP_CLIENT_ID cfg)
                  (GITHUB_APP_PRIVATE_KEY_PATH cfg) (REPO_NAME cfg) of
             (Inl e, st, tr1) \<Rightarrow> (Inl e, f, Json_load (STATUS_FILE cfg) # tr1)
           | (Inr token, st, tr1) \<Rightarrow>
               (case template_load w (MESSAGE_PATH cfg) of
                  Inl e \<Rightarrow>
                    (Inl e, f,
                     Json_load (STATUS_FILE cfg) # tr1 @ [Template_load (MESSAGE_PATH cfg)])
                | Inr msg \<Rightarrow>
                    (case get_repo w token (REPO_NAME cfg) of
                       Inl e \<Rightarrow>
                         (Inl e, f,
                          Json_load (STATUS_FILE cfg) # tr1
                          @ [Template_load (MESSAGE_PATH cfg), Get_repo (REPO_NAME cfg)])
                     | Inr rp \<Rightarrow>
                         (case poll (AUTO_CLOSE cfg) rp msg st of
                            (Inl e, st', tr2) \<Rightarrow>
                              (Inl e, f,
                               Json_load (STATUS_FILE cfg) # tr1
                               @ [Template_load (MESSAGE_PATH cfg), Get_repo (REPO_NAME cfg),
                                  Print_banner]
                               @ tr2)
                          | (Inr _, st', tr2) \<Rightarrow>
                              (Inr (), Json st',
                               Json_load (STATUS_FILE cfg) # tr1
                               @ [Template_load (MESSAGE_PATH cfg), Get_repo (REPO_NAME cfg),
                                  Print_banner]
                               @ tr2 @ [Json_dump (STATUS_FILE cfg) st']))))))"

text \<open>A sequence of runs, each on the file the run before it left.\<close>

fun runs :: "(config \<times> world) list \<Rightarrow> state_file \<Rightarrow> state_file" where
  "runs [] f = f"
| "runs ((cfg, w) # rest) f = runs rest (fst (snd (main cfg w f)))"

text \<open>The \<^verbatim>\<open>pull_req_number\<close> a run on this file starts from, if the file loads.\<close>

definition loaded_mark :: "state_file \<Rightarrow> int option" where
  "loaded_mark f = (case load_status f of Inl e \<Rightarrow> None | Inr st \<Rightarrow> pull_req_number st)"

fun is_dump :: "event \<Rightarrow> bool" where
  "is_dump (Json_dump path st) = True"
| "is_dump ev = False"

section \<open>Example inputs\<close>

text \<open>
  A world in which the credential exchange succeeds, a cached expiry one hour after the
  clock reading that parses, an open pull request without comments on which every call
  succeeds, and a configuration.
\<close>

definition demo_world :: world where
  "demo_world =
     \<lparr>time_refresh = 1700000000,
      strptime_timegm =
        (\<lambda>s. if s = ''2023-11-14T23:13:20Z'' then Inr 1700003600 else Inl ValueError),
      open_read = (\<lambda>p. Inr ''KEY''),
      time_mint = 1700000000.5,
      jwt_encode = (\<lambda>iat ex iss k. Inr ''JWT''),
      requests_get =
        (\<lambda>u a. Inr \<lparr>status_code = 200, text_of = ''ok'', json = Inr [''id'' \<mapsto> ''42'']\<rparr>),
      requests_post =
        (\<lambda>u a. Inr \<lparr>status_code = 201, text_of = ''created'',
                     json = Inr [''token'' \<mapsto> ''ghs_new'',
                                 ''expires_at'' \<mapsto> ''2023-11-14T23:13:20Z'']\<rparr>),
      template_load = (\<lambda>p. Inr (\<lambda>u. Inr (''Hello @'' @ u))),
      get_repo = (\<lambda>t n. Inr \<lparr>get_pulls = Inr []\<rparr>)\<rparr>"

definition demo_pull :: "int \<Rightarrow> string \<Rightarrow> pull" where
  "demo_pull n user =
     \<lparr>number = n, login = user, title = ''Fix'', closed_at = None,
      get_issue_comments = Inr [], create_issue_comment = (\<lambda>body. Inr ()),
      edit_closed = Inr ()\<rparr>"

definition demo_config :: config where
  "demo_config =
     \<lparr>GITHUB_APP_CLIENT_ID = ''cid'', GITHUB_APP_PRIVATE_KEY_PATH = ''key.pem'',
      MESSAGE_PATH = ''message.md'', STATUS_FILE = ''status.json'',
      REPO_NAME = ''org/repo'', AUTO_CLOSE = False\<rparr>"

definition demo_status :: "int \<Rightarrow> status" where
  "demo_status n =
     \<lparr>pull_req_number = Some n, installation_token = Some ''ghs_old'',
      token_expires_at = Some ''2023-11-14T23:13:20Z''\<rparr>"

text \<open>
  A template whose rendering raises for one user name, a repository with a given
  listing, and a world whose template is the raising one and whose listing holds two
  open pull requests.
\<close>

definition demo_template :: "string \<Rightarrow> exc + string" where
  "demo_template u = Inr (''Hello @'' @ u)"

definition strict_template :: "string \<Rightarrow> exc + string" where
  "strict_template u =
     (if u = ''bob'' then Inl (Raised ''TemplateError'') else Inr (''Hello @'' @ u))"

definition demo_repo :: "pull list \<Rightarrow> repo" where
  "demo_repo pulls = \<lparr>get_pulls = Inr pulls\<rparr>"

definition strict_world :: world where
  "strict_world =
     demo_world\<lparr>template_load := (\<lambda>p. Inr strict_template),
                get_repo := (\<lambda>t n. Inr (demo_repo [demo_pull 6 ''alice'', demo_pull 7 ''bob'']))\<rparr>"

text \<open>
  Pull requests on which one call raises, and a world whose listing holds a pull request
  that cannot be commented on and one that can.
\<close>

definition unpostable_pull :: "int \<Rightarrow> string \<Rightarrow> pull" where
  "unpostable_pull n user =
     (demo_pull n user)\<lparr>create_issue_comment := (\<lambda>body. Inl (Raised ''GithubException''))\<rparr>"

definition unclosable_pull :: "int \<Rightarrow> string \<Rightarrow> pull" where
  "unclosable_pull n user = (demo_pull n user)\<lparr>edit_closed := Inl (Raised ''GithubException'')\<rparr>"

definition closed_pull :: "int \<Rightarrow> string \<Rightarrow> pull" where
  "closed_pull n user = (demo_pull n user)\<lparr>closed_at := Some ''2023-11-01T00:00:00Z''\<rparr>"

definition commented_pull :: "int \<Rightarrow> string \<Rightarrow> pull" where
  "commented_pull n user =
     (demo_pull n user)\<lparr>get_issue_comments := Inr [''LGTM'', ''> Hello @'' @ user @ '' (quoted)'']\<rparr>"

definition flaky_world :: world where
  "flaky_world =
     demo_world\<lparr>get_repo :=
       (\<lambda>t n. Inr (demo_repo [demo_pull 6 ''alice'', unpostable_pull 9 ''dave'']))\<rparr>"

section \<open>The credential cache\<close>



lemma demo_mint:
  "get_installation_token demo_world ''cid'' ''key.pem'' ''org/repo'' =
     (Inr (''ghs_new'', ''2023-11-14T23:13:20Z''),
      [Open_read ''key.pem'',
       Requests_get ''https://api.github.com/orgs/org/installation'' ''JWT'',
       Requests_post ''https://api.github.com/app/installations/42/access_tokens'' ''JWT''])"
  by (simp add: get_installation_token_def demo_world_def io_bind_def call_def pure_call_def
      raise_def json_item_def Let_def)



text \<open>
  C10. When the cached token is present and the cached expiry is a non-empty string on
  which the parse raises \<open>ValueError\<close>, that exception does not leave
  \<open>get_or_refresh_token\<close>: the function does what one call of
  \<open>get_installation_token\<close> does, storing and returning the new token when that call
  returns one, and it is the same result as when the expiry had parsed to an instant at
  most 300 seconds after the clock reading.
\<close>

theorem unparseable_expiry_refreshes:
  assumes "installation_token st = Some tok" and "tok \<noteq> []"
    and "token_expires_at st = Some e" and "e \<noteq> []"
    and "strptime_timegm w e = Inl ValueError"
  shows "get_or_refresh_token w st client_id key_path repo_name =
           (case get_installation_token w client_id key_path repo_name of
              (Inl x, tr) \<Rightarrow> (Inl x, st, tr)
            | (Inr (new_token, new_expiry), tr) \<Rightarrow>
                (Inr new_token,
                 st\<lparr>installation_token := Some new_token,
                    token_expires_at := Some new_expiry\<rparr>, tr))
         \<and> (\<forall>t. real_of_int t \<le> time_refresh w + 300 \<longrightarrow>
               get_or_refresh_token w st client_id key_path repo_name =
               get_or_refresh_token (w\<lparr>strptime_timegm := (\<lambda>s. Inr t)\<rparr>) st
                 client_id key_path repo_name)"
proof -
  have mint: "get_installation_token (w\<lparr>strptime_timegm := f\<rparr>) client_id key_path repo_name
              = get_installation_token w client_id key_path repo_name" for f
    by (simp add: get_installation_token_def Let_def cong: if_cong)
  show ?thesis
    using assms by (simp add: get_or_refresh_token_def refresh_def mint)
qed

theorem unparseable_expiry_refreshes_witness:
  "get_or_refresh_token demo_world
      \<lparr>pull_req_number = Some 5, installation_token = Some ''ghs_old'',
       token_expires_at = Some ''next tuesday''\<rparr> ''cid'' ''key.pem'' ''org/repo''
     = (Inr ''ghs_new'',
        \<lparr>pull_req_number = Some 5, installation_token = Some ''ghs_new'',
         token_expires_at = Some ''2023-11-14T23:13:20Z''\<rparr>,
        [Open_read ''key.pem'',
         Requests_get ''https://api.github.com/orgs/org/installation'' ''JWT'',
         Requests_post ''https://api.github.com/app/installations/42/access_tokens'' ''JWT''])"
proof -
  have unparseable: "strptime_timegm demo_world ''next tuesday'' = Inl ValueError"
    by (simp add: demo_world_def)
  from unparseable_expiry_refreshes
      [of "\<lparr>pull_req_number = Some 5, installation_token = Some ''ghs_old'',
            token_expires_at = Some ''next tuesday''\<rparr>"
          "''ghs_old''" "''next tuesday''" demo_world "''cid''" "''key.pem''" "''org/repo''"]
    unparseable
  show ?thesis
    by (simp add: demo_mint)
qed

section \<open>The polling loop\<close>

subsection \<open>Strings\<close>

lemma py_in_sublist: "py_in t s \<longleftrightarrow> sublist t s"
  by (induction s) (auto simp: sublist_Cons_right)

lemma strip_sublist: "sublist (strip s) s"
proof -
  have "suffix (dropWhile isspace s) s"
    by (rule suffix_dropWhile)
  moreover have "prefix (strip s) (dropWhile isspace s)"
    unfolding strip_def
    by (metis suffix_dropWhile suffix_to_prefix rev_rev_ident)
  ultimately show ?thesis
    by (meson prefix_imp_sublist suffix_imp_sublist sublist_order.order_trans)
qed

lemma py_in_strip: "py_in comment body \<Longrightarrow> py_in (strip comment) body"
  using strip_sublist sublist_order.order_trans py_in_sublist by blast

subsection \<open>The mark along a run\<close>

lemma poll_loop_step:
  assumes "threshold < number p" and "msg (login p) = Inr comment"
  shows "poll_loop auto_close msg threshold st (p # ps) =
           (case try_block auto_close st p comment of
              (st', tr) \<Rightarrow>
                (case poll_loop auto_close msg threshold st' ps of
                   (r, st'', tr') \<Rightarrow>
                     (r, st'',
                      [Print_pull (number p) (login p) (title p),
                       Render (number p) (login p)] @ tr @ tr')))"
  using assms by simp

lemma try_block_status:
  "fst (try_block auto_close st p comment) = st
   \<or> (\<exists>m. pull_req_number st = Some m
          \<and> fst (try_block auto_close st p comment)
              = st\<lparr>pull_req_number := Some (max m (number p))\<rparr>)"
  by (simp add: try_block_def Let_def split: sum.splits option.splits)

lemma try_block_mark:
  assumes "pull_req_number st = Some m"
  shows "\<exists>m'. pull_req_number (fst (try_block auto_close st p comment)) = Some m' \<and> m \<le> m'"
  using try_block_status[of auto_close st p comment] assms by auto

lemma poll_loop_mark:
  assumes "pull_req_number st = Some m"
  shows "\<exists>m'. pull_req_number (fst (snd (poll_loop auto_close msg threshold st ps))) = Some m'
              \<and> m \<le> m'"
  using assms
proof (induction ps arbitrary: st m)
  case Nil
  then show ?case by simp
next
  case (Cons p ps)
  show ?case
  proof (cases "number p \<le> threshold")
    case True
    with Cons.prems show ?thesis by simp
  next
    case above: False
    show ?thesis
    proof (cases "msg (login p)")
      case (Inl e)
      with above Cons.prems show ?thesis by simp
    next
      case (Inr comment)
      obtain st' tr where tb: "try_block auto_close st p comment = (st', tr)"
        by (cases "try_block auto_close st p comment")
      from try_block_mark[OF Cons.prems, of auto_close p comment] tb
      obtain m1 where m1: "pull_req_number st' = Some m1" "m \<le> m1" by auto
      from Cons.IH[OF m1(1)] obtain m2 where
        "pull_req_number (fst (snd (poll_loop auto_close msg threshold st' ps))) = Some m2"
        "m1 \<le> m2" by blast
      with m1 above Inr tb show ?thesis
        by (auto split: prod.splits)
    qed
  qed
qed

lemma poll_mark:
  assumes "pull_req_number st = Some m"
  shows "\<exists>m'. pull_req_number (fst (snd (poll auto_close rp msg st))) = Some m' \<and> m \<le> m'"
proof (cases "get_pulls rp")
  case (Inl e)
  with assms show ?thesis by (simp add: poll_def)
next
  case (Inr pulls)
  from poll_loop_mark[OF assms, of auto_close msg m "rev pulls"] Inr assms
  show ?thesis by (auto simp: poll_def split: prod.splits)
qed

lemma get_or_refresh_token_mark:
  "pull_req_number (fst (snd (get_or_refresh_token w st client_id key_path repo_name)))
     = pull_req_number st"
  by (auto simp: get_or_refresh_token_def refresh_def split: sum.splits prod.splits)

lemma main_mark:
  assumes "loaded_mark f = Some m"
  shows "\<exists>m'. loaded_mark (fst (snd (main cfg w f))) = Some m' \<and> m \<le> m'"
proof -
  from assms obtain st0 where st0: "load_status f = Inr st0" "pull_req_number st0 = Some m"
    by (auto simp: loaded_mark_def split: sum.splits)
  obtain r st1 tr1 where tok:
    "get_or_refresh_token w st0 (GITHUB_APP_CLIENT_ID cfg) (GITHUB_APP_PRIVATE_KEY_PATH cfg)
       (REPO_NAME cfg) = (r, st1, tr1)"
    by (metis prod_cases3)
  with get_or_refresh_token_mark[of w st0 "GITHUB_APP_CLIENT_ID cfg"
      "GITHUB_APP_PRIVATE_KEY_PATH cfg" "REPO_NAME cfg"] st0
  have st1: "pull_req_number st1 = Some m" by simp
  have written: "\<exists>m'. loaded_mark (Json st2) = Some m' \<and> m \<le> m'"
    if "poll ac rp msg st1 = (r2, st2, tr2)" for ac rp msg r2 st2 tr2
  proof -
    from poll_mark[OF st1, of ac rp msg] that
    obtain m' where "pull_req_number st2 = Some m'" "m \<le> m'" by auto
    then show ?thesis
      by (auto simp: loaded_mark_def load_status_def json_load_def setdefaults_def)
  qed
  show ?thesis
    using assms st0 tok written
    by (auto simp: main_def split: sum.splits prod.splits)
qed

lemma runs_mark:
  assumes "loaded_mark f = Some m"
  shows "\<exists>m'. loaded_mark (runs cws f) = Some m' \<and> m \<le> m'"
  using assms
proof (induction cws arbitrary: f m)
  case Nil
  then show ?case by simp
next
  case (Cons cw cws)
  obtain cfg w where cw: "cw = (cfg, w)" by (cases cw)
  from main_mark[OF Cons.prems, of cfg w] obtain m1 where
    m1: "loaded_mark (fst (snd (main cfg w f))) = Some m1" "m \<le> m1" by blast
  from Cons.IH[OF m1(1)] m1(2) cw show ?case
    by fastforce
qed

subsection \<open>Runs of the example worlds\<close>

lemma flaky_run:
  "main demo_config flaky_world (Json (demo_status 5)) =
     (Inr (), Json (demo_status 6),
      [Json_load ''status.json'', Template_load ''message.md'', Get_repo ''org/repo'',
       Print_banner, Get_pulls,
       Print_pull 9 ''dave'' ''Fix'', Render 9 ''dave'', Get_issue_comments 9,
       Create_issue_comment 9 ''Hello @dave'', Print_error (Raised ''GithubException''),
       Print_pull 6 ''alice'' ''Fix'', Render 6 ''alice'', Get_issue_comments 6,
       Create_issue_comment 6 ''Hello @alice'', Print_posted,
       Json_dump ''status.json'' (demo_status 6)])"
  by (simp add: main_def load_status_def json_load_def setdefaults_def demo_status_def
      get_or_refresh_token_def flaky_world_def demo_world_def demo_config_def poll_def
      demo_repo_def try_block_def demo_pull_def unpostable_pull_def strip_def isspace_def)

lemma strict_run:
  "main demo_config strict_world (Json (demo_status 6)) =
     (Inl (Raised ''TemplateError''), Json (demo_status 6),
      [Json_load ''status.json'', Template_load ''message.md'', Get_repo ''org/repo'',
       Print_banner, Get_pulls, Print_pull 7 ''bob'' ''Fix'', Render 7 ''bob''])"
  by (simp add: main_def load_status_def json_load_def setdefaults_def demo_status_def
      get_or_refresh_token_def strict_world_def demo_world_def demo_config_def poll_def
      demo_repo_def try_block_def demo_pull_def strict_template_def strip_def isspace_def)

text \<open>
  C4. The value of \<open>pull_req_number\<close> never decreases. Handling one pull request in the
  guarded block leaves it or raises it; so does a whole call of \<open>poll\<close>;
  \<open>get_or_refresh_token\<close> does not touch it; and the number a run starts from on the
  file one run leaves behind, or any sequence of runs leaves behind, is at least the
  number the first run started from.
\<close>

theorem mark_never_decreases:
  "(pull_req_number st = Some m \<longrightarrow>
      (\<exists>m'. pull_req_number (fst (try_block auto_close st p comment)) = Some m' \<and> m \<le> m')
      \<and> (\<exists>m'. pull_req_number (fst (snd (poll auto_close rp msg st))) = Some m' \<and> m \<le> m'))
   \<and> pull_req_number (fst (snd (get_or_refresh_token w st client_id key_path repo_name)))
       = pull_req_number st
   \<and> (loaded_mark f = Some n \<longrightarrow>
        (\<exists>n'. loaded_mark (fst (snd (main cfg w f))) = Some n' \<and> n \<le> n')
        \<and> (\<exists>n'. loaded_mark (runs cws f) = Some n' \<and> n \<le> n'))"
  by (simp add: try_block_mark poll_mark get_or_refresh_token_mark main_mark runs_mark)

theorem mark_never_decreases_witness:
  "pull_req_number (demo_status 5) = Some 5
   \<and> loaded_mark (Json (demo_status 5)) = Some 5
   \<and> (\<exists>m'. pull_req_number
              (fst (try_block False (demo_status 5) (demo_pull 6 ''alice'') ''Hello @alice''))
            = Some m' \<and> 5 \<le> m')
   \<and> (\<exists>n'. loaded_mark
              (runs [(demo_config, flaky_world), (demo_config, strict_world)]
                 (Json (demo_status 5))) = Some n' \<and> 5 \<le> n')
   \<and> runs [(demo_config, flaky_world), (demo_config, strict_world)] (Json (demo_status 5))
       = Json (demo_status 6)"
proof -
  have hyps: "pull_req_number (demo_status 5) = Some 5"
    "loaded_mark (Json (demo_status 5)) = Some 5"
    by (simp_all add: demo_status_def loaded_mark_def load_status_def json_load_def
        setdefaults_def)
  have final: "runs [(demo_config, flaky_world), (demo_config, strict_world)]
                 (Json (demo_status 5)) = Json (demo_status 6)"
    by (simp add: flaky_run strict_run)
  from hyps final
    mark_never_decreases[of "demo_status 5" 5 False "demo_pull 6 ''alice''" "''Hello @alice''"
      "demo_repo []" demo_template demo_world "''cid''" "''key.pem''" "''org/repo''"
      "Json (demo_status 5)" 5 demo_config
      "[(demo_config, flaky_world), (demo_config, strict_world)]"]
  show ?thesis by simp
qed

subsection \<open>Exceptions while a pull request is handled\<close>




text \<open>
  C3, as the code has it. The mark is written after the post and, with \<open>AUTO_CLOSE\<close>,
  after the close. When the post succeeds and, with \<open>AUTO_CLOSE\<close>, the close succeeds
  too, the mark becomes the maximum of the old mark and the number of \<open>p\<close>, and at the
  end of the loop it is still at least that number. When the fetch, the post or the close
  raises, handling \<open>p\<close> leaves the status as it was.
\<close>

theorem mark_follows_outcome:
  "(pull_req_number st = Some m \<and> threshold < number p \<and> msg (login p) = Inr comment
      \<and> closed_at p = None \<and> get_issue_comments p = Inr cs
      \<and> \<not> list_ex (\<lambda>body. py_in (strip comment) body) cs
      \<and> create_issue_comment p comment = Inr ()
      \<and> (auto_close \<longrightarrow> edit_closed p = Inr ())
    \<longrightarrow> fst (try_block auto_close st p comment)
          = st\<lparr>pull_req_number := Some (max m (number p))\<rparr>
        \<and> (\<exists>m'. pull_req_number
                   (fst (snd (poll_loop auto_close msg threshold st (p # ps)))) = Some m'
                 \<and> number p \<le> m'))
   \<and> (closed_at p = None
        \<and> (get_issue_comments p = Inl e
            \<or> get_issue_comments p = Inr cs
               \<and> \<not> list_ex (\<lambda>body. py_in (strip comment) body) cs
               \<and> (create_issue_comment p comment = Inl e
                   \<or> auto_close \<and> edit_closed p = Inl e))
      \<longrightarrow> fst (try_block auto_close st p comment) = st)"
proof (intro conjI impI)
  assume ok: "pull_req_number st = Some m \<and> threshold < number p \<and> msg (login p) = Inr comment
      \<and> closed_at p = None \<and> get_issue_comments p = Inr cs
      \<and> \<not> list_ex (\<lambda>body. py_in (strip comment) body) cs
      \<and> create_issue_comment p comment = Inr ()
      \<and> (auto_close \<longrightarrow> edit_closed p = Inr ())"
  then show adv: "fst (try_block auto_close st p comment)
          = st\<lparr>pull_req_number := Some (max m (number p))\<rparr>"
    by (auto simp: try_block_def Let_def)
  obtain st' tr where tb: "try_block auto_close st p comment = (st', tr)"
    by (cases "try_block auto_close st p comment")
  with adv have "pull_req_number st' = Some (max m (number p))" by simp
  from poll_loop_mark[OF this, of auto_close msg threshold ps]
  obtain m' where "pull_req_number (fst (snd (poll_loop auto_close msg threshold st' ps))) = Some m'"
    "max m (number p) \<le> m'" by blast
  with ok tb show "\<exists>m'. pull_req_number
                   (fst (snd (poll_loop auto_close msg threshold st (p # ps)))) = Some m'
                 \<and> number p \<le> m'"
    by (auto split: prod.splits)
next
  assume "closed_at p = None
        \<and> (get_issue_comments p = Inl e
            \<or> get_issue_comments p = Inr cs
               \<and> \<not> list_ex (\<lambda>body. py_in (strip comment) body) cs
               \<and> (create_issue_comment p comment = Inl e
                   \<or> auto_close \<and> edit_closed p = Inl e))"
  then show "fst (try_block auto_close st p comment) = st"
    by (auto simp: try_block_def Let_def split: sum.splits)
qed

theorem mark_follows_outcome_witness:
  "fst (try_block True (demo_status 5) (demo_pull 8 ''carol'') ''Hello @carol'') = demo_status 8
   \<and> (\<exists>m'. pull_req_number
              (fst (snd (poll_loop True demo_template 5 (demo_status 5)
                           [demo_pull 8 ''carol'', demo_pull 6 ''alice'']))) = Some m'
            \<and> 8 \<le> m')
   \<and> fst (try_block True (demo_status 5) (unclosable_pull 8 ''carol'') ''Hello @carol'')
       = demo_status 5"
proof -
  have ok: "pull_req_number (demo_status 5) = Some 5 \<and> 5 < number (demo_pull 8 ''carol'')
      \<and> demo_template (login (demo_pull 8 ''carol'')) = Inr ''Hello @carol''
      \<and> closed_at (demo_pull 8 ''carol'') = None
      \<and> get_issue_comments (demo_pull 8 ''carol'') = Inr []
      \<and> \<not> list_ex (\<lambda>body. py_in (strip ''Hello @carol'') body) []
      \<and> create_issue_comment (demo_pull 8 ''carol'') ''Hello @carol'' = Inr ()
      \<and> (True \<longrightarrow> edit_closed (demo_pull 8 ''carol'') = Inr ())"
    by (simp add: demo_status_def demo_pull_def demo_template_def)
  have bad: "closed_at (unclosable_pull 8 ''carol'') = None
        \<and> (get_issue_comments (unclosable_pull 8 ''carol'') = Inl (Raised ''GithubException'')
            \<or> get_issue_comments (unclosable_pull 8 ''carol'') = Inr []
               \<and> \<not> list_ex (\<lambda>body. py_in (strip ''Hello @carol'') body) []
               \<and> (create_issue_comment (unclosable_pull 8 ''carol'') ''Hello @carol''
                     = Inl (Raised ''GithubException'')
                   \<or> True \<and> edit_closed (unclosable_pull 8 ''carol'')
                       = Inl (Raised ''GithubException'')))"
    by (simp add: unclosable_pull_def demo_pull_def)
  from ok
    mark_follows_outcome[where st = "demo_status 5" and m = 5 and threshold = 5
      and p = "demo_pull 8 ''carol''" and msg = demo_template and comment = "''Hello @carol''"
      and cs = "[]" and auto_close = True and ps = "[demo_pull 6 ''alice'']"]
  have good: "fst (try_block True (demo_status 5) (demo_pull 8 ''carol'') ''Hello @carol'')
          = (demo_status 5)\<lparr>pull_req_number := Some (max 5 (number (demo_pull 8 ''carol'')))\<rparr>
        \<and> (\<exists>m'. pull_req_number
                   (fst (snd (poll_loop True demo_template 5 (demo_status 5)
                      (demo_pull 8 ''carol'' # [demo_pull 6 ''alice''])))) = Some m'
                 \<and> number (demo_pull 8 ''carol'') \<le> m')"
    by blast
  from bad
    mark_follows_outcome[where st = "demo_status 5" and p = "unclosable_pull 8 ''carol''"
      and comment = "''Hello @carol''" and cs = "[]" and auto_close = True
      and e = "Raised ''GithubException''"]
  have kept: "fst (try_block True (demo_status 5) (unclosable_pull 8 ''carol'') ''Hello @carol'')
       = demo_status 5"
    by blast
  from good kept show ?thesis
    by (simp add: demo_status_def demo_pull_def)
qed

text \<open>
  The claim as the specification states it has the mark advance whenever the post
  succeeded, also when the close fails afterwards. With \<open>AUTO_CLOSE\<close>, a mark of 5 and
  pull request 8 on which the post succeeds and the close raises, the mark is still 5
  after the run.
\<close>

theorem close_failure_keeps_mark:
  "create_issue_comment (unclosable_pull 8 ''carol'') ''Hello @carol'' = Inr ()
   \<and> poll True (demo_repo [unclosable_pull 8 ''carol'']) demo_template (demo_status 5)
     = (Inr (), demo_status 5,
        [Get_pulls, Print_pull 8 ''carol'' ''Fix'', Render 8 ''carol'', Get_issue_comments 8,
         Create_issue_comment 8 ''Hello @carol'', Edit_closed 8,
         Print_error (Raised ''GithubException'')])"
  by (simp add: poll_def demo_repo_def unclosable_pull_def demo_pull_def demo_template_def
      demo_status_def try_block_def strip_def isspace_def)

subsection \<open>What a run calls\<close>

lemma try_block_events:
  assumes "ev \<in> set (snd (try_block auto_close st p comment))"
  shows "closed_at p \<noteq> None \<and> ev = Print_closed_skip
         \<or> closed_at p = None
            \<and> (ev = Get_issue_comments (number p) \<or> ev = Print_similar_skip
                \<or> ev = Create_issue_comment (number p) comment \<or> ev = Edit_closed (number p)
                \<or> ev = Print_posted_closed \<or> ev = Print_posted \<or> (\<exists>e. ev = Print_error e))"
  using assms
  by (auto simp: try_block_def Let_def split: if_splits sum.splits option.splits)

lemma poll_loop_events:
  assumes "ev \<in> set (snd (snd (poll_loop auto_close msg threshold st ps)))"
  shows "(\<exists>p\<in>set ps. ev = Print_pull (number p) (login p) (title p))
         \<or> ev = Print_break threshold
         \<or> (\<exists>p\<in>set ps. threshold < number p \<and> ev = Render (number p) (login p))
         \<or> (\<exists>p\<in>set ps. \<exists>comment st'. threshold < number p \<and> msg (login p) = Inr comment
                \<and> ev \<in> set (snd (try_block auto_close st' p comment)))"
  using assms
proof (induction ps arbitrary: st)
  case Nil
  then show ?case by simp
next
  case (Cons p ps)
  show ?case
  proof (cases "number p \<le> threshold")
    case True
    with Cons.prems show ?thesis by auto
  next
    case above: False
    show ?thesis
    proof (cases "msg (login p)")
      case (Inl e)
      with above Cons.prems show ?thesis by auto
    next
      case (Inr comment)
      obtain st' tr where tb: "try_block auto_close st p comment = (st', tr)"
        by (cases "try_block auto_close st p comment")
      obtain r st'' tr' where rest: "poll_loop auto_close msg threshold st' ps = (r, st'', tr')"
        by (metis prod_cases3)
      from Cons.prems above Inr tb rest
      consider "ev = Print_pull (number p) (login p) (title p)"
        | "ev = Render (number p) (login p)" | "ev \<in> set tr" | "ev \<in> set tr'"
        by auto
      then show ?thesis
      proof cases
        case 1
        then show ?thesis by simp
      next
        case 2
        with above show ?thesis by simp
      next
        case 3
        with tb have "ev \<in> set (snd (try_block auto_close st p comment))" by simp
        with above Inr show ?thesis by auto
      next
        case 4
        with rest have "ev \<in> set (snd (snd (poll_loop auto_close msg threshold st' ps)))"
          by simp
        from Cons.IH[OF this] show ?thesis by auto
      qed
    qed
  qed
qed

lemma poll_loop_calls_above_threshold:
  assumes "ev \<in> set (snd (snd (poll_loop auto_close msg threshold st ps)))"
    and "ev = Render n u \<or> ev = Get_issue_comments n \<or> ev = Create_issue_comment n c
         \<or> ev = Edit_closed n"
  shows "threshold < n"
  using poll_loop_events[OF assms(1)] assms(2)
  by (auto dest!: try_block_events)

lemma poll_loop_calls_open:
  assumes "ev \<in> set (snd (snd (poll_loop auto_close msg threshold st ps)))"
    and "ev = Get_issue_comments n \<or> ev = Create_issue_comment n c \<or> ev = Edit_closed n"
  shows "\<exists>p\<in>set ps. number p = n \<and> closed_at p = None"
  using poll_loop_events[OF assms(1)] assms(2)
  by (auto dest!: try_block_events)

lemma poll_loop_append:
  assumes "\<forall>q\<in>set newer. threshold < number q"
  shows "poll_loop auto_close msg threshold st (newer @ rest) =
           (case poll_loop auto_close msg threshold st newer of
              (Inl e, st', tr) \<Rightarrow> (Inl e, st', tr)
            | (Inr u, st', tr) \<Rightarrow>
                (case poll_loop auto_close msg threshold st' rest of
                   (r, st'', tr') \<Rightarrow> (r, st'', tr @ tr')))"
  using assms
proof (induction newer arbitrary: st)
  case Nil
  then show ?case by (simp split: prod.splits)
next
  case (Cons p ps)
  then have above: "threshold < number p" and rest: "\<forall>q\<in>set ps. threshold < number q"
    by simp_all
  show ?case
  proof (cases "msg (login p)")
    case (Inl e)
    with above show ?thesis by simp
  next
    case (Inr comment)
    obtain st' tr where tb: "try_block auto_close st p comment = (st', tr)"
      by (cases "try_block auto_close st p comment")
    from above Inr tb Cons.IH[OF rest, of st'] show ?thesis
      by (simp split: prod.splits sum.splits)
  qed
qed

lemma demo_pull_fields:
  "number (demo_pull n user) = n" "login (demo_pull n user) = user"
  "title (demo_pull n user) = ''Fix''" "closed_at (demo_pull n user) = None"
  "number (closed_pull n user) = n" "login (closed_pull n user) = user"
  "title (closed_pull n user) = ''Fix''"
  "number (commented_pull n user) = n" "login (commented_pull n user) = user"
  "title (commented_pull n user) = ''Fix''" "closed_at (commented_pull n user) = None"
  by (simp_all add: demo_pull_def closed_pull_def commented_pull_def)

text \<open>
  C5. Let the loop meet, after pull requests that are all above the mark the status held
  when \<open>poll\<close> started, a pull request \<open>p\<close> whose number is at most that mark. Then the
  loop ends there: \<open>poll\<close> is the loop over the pull requests before \<open>p\<close>, followed by
  the two lines printed for \<open>p\<close>; the pull requests after \<open>p\<close> play no part. And for
  no number at or below the mark is a comment rendered, a comment list fetched, a comment
  posted or a pull request closed.
\<close>

theorem poll_stops_at_threshold:
  assumes "pull_req_number st = Some threshold" and "get_pulls rp = Inr pulls"
    and "rev pulls = newer @ p # older"
    and "\<forall>q\<in>set newer. threshold < number q" and "number p \<le> threshold"
  shows "poll auto_close rp msg st =
           (case poll_loop auto_close msg threshold st newer of
              (Inl e, st', tr) \<Rightarrow> (Inl e, st', Get_pulls # tr)
            | (Inr u, st', tr) \<Rightarrow>
                (Inr (), st',
                 Get_pulls # tr
                 @ [Print_pull (number p) (login p) (title p), Print_break threshold]))
         \<and> (\<forall>n\<le>threshold.
               (\<forall>u. Render n u \<notin> set (snd (snd (poll auto_close rp msg st))))
               \<and> Get_issue_comments n \<notin> set (snd (snd (poll auto_close rp msg st)))
               \<and> (\<forall>c. Create_issue_comment n c \<notin> set (snd (snd (poll auto_close rp msg st))))
               \<and> Edit_closed n \<notin> set (snd (snd (poll auto_close rp msg st))))"
proof
  have stop: "poll_loop auto_close msg threshold st' (p # older) =
      (Inr (), st', [Print_pull (number p) (login p) (title p), Print_break threshold])" for st'
    using assms(5) by simp
  obtain r st1 tr1 where newer: "poll_loop auto_close msg threshold st newer = (r, st1, tr1)"
    by (metis prod_cases3)
  have whole: "poll_loop auto_close msg threshold st (rev pulls) =
      (case r of
         Inl e \<Rightarrow> (Inl e, st1, tr1)
       | Inr u \<Rightarrow>
           (Inr (), st1,
            tr1 @ [Print_pull (number p) (login p) (title p), Print_break threshold]))"
    unfolding assms(3) poll_loop_append[OF assms(4)] newer stop
    by (simp split: sum.splits)
  show "poll auto_close rp msg st =
           (case poll_loop auto_close msg threshold st newer of
              (Inl e, st', tr) \<Rightarrow> (Inl e, st', Get_pulls # tr)
            | (Inr u, st', tr) \<Rightarrow>
                (Inr (), st',
                 Get_pulls # tr
                 @ [Print_pull (number p) (login p) (title p), Print_break threshold]))"
    unfolding newer
    by (simp add: poll_def assms(1,2) whole split: sum.splits)
next
  have tr: "snd (snd (poll auto_close rp msg st))
            = Get_pulls # snd (snd (poll_loop auto_close msg threshold st (rev pulls)))"
    using assms(1,2) by (simp add: poll_def split: prod.splits)
  show "\<forall>n\<le>threshold.
               (\<forall>u. Render n u \<notin> set (snd (snd (poll auto_close rp msg st))))
               \<and> Get_issue_comments n \<notin> set (snd (snd (poll auto_close rp msg st)))
               \<and> (\<forall>c. Create_issue_comment n c \<notin> set (snd (snd (poll auto_close rp msg st))))
               \<and> Edit_closed n \<notin> set (snd (snd (poll auto_close rp msg st)))"
    unfolding tr
    using poll_loop_calls_above_threshold[of _ auto_close msg threshold st "rev pulls"]
    by fastforce
qed

theorem poll_stops_at_threshold_witness:
  "pull_req_number (demo_status 6) = Some 6
   \<and> rev [demo_pull 5 ''eve'', demo_pull 6 ''alice'', demo_pull 7 ''carol'']
       = [demo_pull 7 ''carol''] @ demo_pull 6 ''alice'' # [demo_pull 5 ''eve'']
   \<and> number (demo_pull 6 ''alice'') \<le> 6
   \<and> poll False (demo_repo [demo_pull 5 ''eve'', demo_pull 6 ''alice'', demo_pull 7 ''carol''])
        demo_template (demo_status 6)
      = (Inr (), demo_status 7,
         [Get_pulls, Print_pull 7 ''carol'' ''Fix'', Render 7 ''carol'', Get_issue_comments 7,
          Create_issue_comment 7 ''Hello @carol'', Print_posted,
          Print_pull 6 ''alice'' ''Fix'', Print_break 6])
   \<and> Render 5 ''eve'' \<notin> set (snd (snd (poll False
         (demo_repo [demo_pull 5 ''eve'', demo_pull 6 ''alice'', demo_pull 7 ''carol''])
         demo_template (demo_status 6))))"
proof -
  have hyps: "pull_req_number (demo_status 6) = Some 6"
    "get_pulls (demo_repo [demo_pull 5 ''eve'', demo_pull 6 ''alice'', demo_pull 7 ''carol''])
       = Inr [demo_pull 5 ''eve'', demo_pull 6 ''alice'', demo_pull 7 ''carol'']"
    "rev [demo_pull 5 ''eve'', demo_pull 6 ''alice'', demo_pull 7 ''carol'']
       = [demo_pull 7 ''carol''] @ demo_pull 6 ''alice'' # [demo_pull 5 ''eve'']"
    "\<forall>q\<in>set [demo_pull 7 ''carol'']. 6 < number q"
    "number (demo_pull 6 ''alice'') \<le> 6"
    by (simp_all add: demo_status_def demo_repo_def demo_pull_def)
  have newer: "poll_loop False demo_template 6 (demo_status 6) [demo_pull 7 ''carol'']
      = (Inr (), demo_status 7,
         [Print_pull 7 ''carol'' ''Fix'', Render 7 ''carol'', Get_issue_comments 7,
          Create_issue_comment 7 ''Hello @carol'', Print_posted])"
    by (simp add: demo_pull_def demo_template_def demo_status_def try_block_def strip_def
        isspace_def)
  note inst = poll_stops_at_threshold[OF hyps, of False demo_template]
  from inst have eq:
    "poll False (demo_repo [demo_pull 5 ''eve'', demo_pull 6 ''alice'', demo_pull 7 ''carol''])
        demo_template (demo_status 6)
     = (case poll_loop False demo_template 6 (demo_status 6) [demo_pull 7 ''carol''] of
          (Inl e, st', tr) \<Rightarrow> (Inl e, st', Get_pulls # tr)
        | (Inr u, st', tr) \<Rightarrow>
            (Inr (), st',
             Get_pulls # tr
             @ [Print_pull (number (demo_pull 6 ''alice'')) (login (demo_pull 6 ''alice''))
                  (title (demo_pull 6 ''alice'')), Print_break 6]))"
    by (rule conjunct1)
  have run: "poll False (demo_repo [demo_pull 5 ''eve'', demo_pull 6 ''alice'', demo_pull 7 ''carol''])
        demo_template (demo_status 6)
      = (Inr (), demo_status 7,
         [Get_pulls, Print_pull 7 ''carol'' ''Fix'', Render 7 ''carol'', Get_issue_comments 7,
          Create_issue_comment 7 ''Hello @carol'', Print_posted,
          Print_pull 6 ''alice'' ''Fix'', Print_break 6])"
    unfolding eq newer by (simp add: demo_pull_fields)
  from inst have below: "Render 5 ''eve'' \<notin> set (snd (snd (poll False
         (demo_repo [demo_pull 5 ''eve'', demo_pull 6 ''alice'', demo_pull 7 ''carol''])
         demo_template (demo_status 6))))"
    by auto
  from hyps(1,3,5) run below show ?thesis by blast
qed

subsection \<open>Pull requests that are skipped\<close>

text \<open>
  C6. Let \<open>p\<close> be above the threshold with its comment rendered, and let one of the
  comments fetched for \<open>p\<close> contain the rendered text. Then handling \<open>p\<close> leaves the
  status as it is, whatever mark it holds, and calls nothing but the fetch of the
  comments (not even that when \<open>p\<close> is closed): no comment is posted and \<open>p\<close> is not
  closed. The loop goes on with the pull requests after \<open>p\<close> from the same status.
\<close>

theorem duplicate_comment_is_skipped:
  assumes "threshold < number p" and "msg (login p) = Inr comment"
    and "get_issue_comments p = Inr cs" and "body \<in> set cs" and "sublist comment body"
  shows "try_block auto_close st p comment =
           (st, if closed_at p \<noteq> None then [Print_closed_skip]
                else [Get_issue_comments (number p), Print_similar_skip])
         \<and> poll_loop auto_close msg threshold st (p # ps) =
             (case poll_loop auto_close msg threshold st ps of
                (r, st', tr') \<Rightarrow>
                  (r, st',
                   Print_pull (number p) (login p) (title p) # Render (number p) (login p)
                   # (if closed_at p \<noteq> None then [Print_closed_skip]
                      else [Get_issue_comments (number p), Print_similar_skip])
                   @ tr'))"
proof -
  from assms(5) have "py_in comment body"
    by (simp add: py_in_sublist)
  then have "py_in (strip comment) body"
    by (rule py_in_strip)
  with assms(4) have found: "list_ex (\<lambda>body. py_in (strip comment) body) cs"
    by (auto simp: list_ex_iff)
  with assms(3) have tb: "try_block auto_close st p comment =
           (st, if closed_at p \<noteq> None then [Print_closed_skip]
                else [Get_issue_comments (number p), Print_similar_skip])"
    by (simp add: try_block_def)
  from poll_loop_step[where threshold = threshold and p = p and msg = msg
      and comment = comment and auto_close = auto_close and st = st and ps = ps] assms(1,2)
  have "poll_loop auto_close msg threshold st (p # ps) =
             (case poll_loop auto_close msg threshold st ps of
                (r, st', tr') \<Rightarrow>
                  (r, st',
                   Print_pull (number p) (login p) (title p) # Render (number p) (login p)
                   # (if closed_at p \<noteq> None then [Print_closed_skip]
                      else [Get_issue_comments (number p), Print_similar_skip])
                   @ tr'))"
    unfolding tb by (simp split: prod.splits)
  with tb show ?thesis by simp
qed

theorem duplicate_comment_is_skipped_witness:
  "5 < number (commented_pull 7 ''bob'')
   \<and> sublist ''Hello @bob'' ''> Hello @bob (quoted)''
   \<and> poll_loop True demo_template 5 (demo_status 5)
        [commented_pull 7 ''bob'', demo_pull 6 ''alice'']
      = (Inr (), demo_status 6,
         [Print_pull 7 ''bob'' ''Fix'', Render 7 ''bob'', Get_issue_comments 7,
          Print_similar_skip,
          Print_pull 6 ''alice'' ''Fix'', Render 6 ''alice'', Get_issue_comments 6,
          Create_issue_comment 6 ''Hello @alice'', Edit_closed 6, Print_posted_closed])"
proof -
  have hyps: "5 < number (commented_pull 7 ''bob'')"
    "demo_template (login (commented_pull 7 ''bob'')) = Inr ''Hello @bob''"
    "get_issue_comments (commented_pull 7 ''bob'') = Inr [''LGTM'', ''> Hello @bob (quoted)'']"
    "''> Hello @bob (quoted)'' \<in> set [''LGTM'', ''> Hello @bob (quoted)'']"
    "sublist ''Hello @bob'' ''> Hello @bob (quoted)''"
    by (simp_all add: commented_pull_def demo_pull_def demo_template_def
        py_in_sublist[symmetric])
  have rest: "poll_loop True demo_template 5 (demo_status 5) [demo_pull 6 ''alice'']
      = (Inr (), demo_status 6,
         [Print_pull 6 ''alice'' ''Fix'', Render 6 ''alice'', Get_issue_comments 6,
          Create_issue_comment 6 ''Hello @alice'', Edit_closed 6, Print_posted_closed])"
    by (simp add: demo_pull_def demo_template_def demo_status_def try_block_def strip_def
        isspace_def)
  note inst = duplicate_comment_is_skipped[where threshold = 5
      and p = "commented_pull 7 ''bob''" and msg = demo_template and comment = "''Hello @bob''"
      and cs = "[''LGTM'', ''> Hello @bob (quoted)'']" and body = "''> Hello @bob (quoted)''"
      and auto_close = True and st = "demo_status 5" and ps = "[demo_pull 6 ''alice'']",
      OF hyps]
  from inst have loop: "poll_loop True demo_template 5 (demo_status 5)
        (commented_pull 7 ''bob'' # [demo_pull 6 ''alice'']) =
      (case poll_loop True demo_template 5 (demo_status 5) [demo_pull 6 ''alice''] of
         (r, st', tr') \<Rightarrow>
           (r, st',
            Print_pull (number (commented_pull 7 ''bob'')) (login (commented_pull 7 ''bob''))
              (title (commented_pull 7 ''bob''))
            # Render (number (commented_pull 7 ''bob'')) (login (commented_pull 7 ''bob''))
            # (if closed_at (commented_pull 7 ''bob'') \<noteq> None then [Print_closed_skip]
               else [Get_issue_comments (number (commented_pull 7 ''bob'')), Print_similar_skip])
            @ tr'))"
    by (rule conjunct2)
  have "poll_loop True demo_template 5 (demo_status 5)
        [commented_pull 7 ''bob'', demo_pull 6 ''alice'']
      = (Inr (), demo_status 6,
         [Print_pull 7 ''bob'' ''Fix'', Render 7 ''bob'', Get_issue_comments 7,
          Print_similar_skip,
          Print_pull 6 ''alice'' ''Fix'', Render 6 ''alice'', Get_issue_comments 6,
          Create_issue_comment 6 ''Hello @alice'', Edit_closed 6, Print_posted_closed])"
    unfolding loop rest by (simp add: demo_pull_fields)
  with hyps(1,5) show ?thesis by blast
qed

text \<open>
  C7. When every pull request of the listing that bears the number \<open>n\<close> has its closed
  timestamp set, a call of \<open>poll\<close> fetches no comments for \<open>n\<close>, posts no comment on
  \<open>n\<close> and does not close \<open>n\<close>, whatever the status holds. Handling a closed pull
  request leaves the status as it is and only prints that it is skipped, and the loop
  goes on with the pull requests after it from the same status.
\<close>

theorem closed_pull_is_never_commented:
  "(get_pulls rp = Inr pulls \<and> (\<forall>q\<in>set pulls. number q = n \<longrightarrow> closed_at q \<noteq> None)
      \<longrightarrow> Get_issue_comments n \<notin> set (snd (snd (poll auto_close rp msg st)))
          \<and> (\<forall>c. Create_issue_comment n c \<notin> set (snd (snd (poll auto_close rp msg st))))
          \<and> Edit_closed n \<notin> set (snd (snd (poll auto_close rp msg st))))
   \<and> (closed_at p \<noteq> None
        \<longrightarrow> try_block auto_close st p comment = (st, [Print_closed_skip]))
   \<and> (closed_at p \<noteq> None \<and> threshold < number p \<and> msg (login p) = Inr comment
        \<longrightarrow> poll_loop auto_close msg threshold st (p # ps) =
              (case poll_loop auto_close msg threshold st ps of
                 (r, st', tr') \<Rightarrow>
                   (r, st',
                    Print_pull (number p) (login p) (title p) # Render (number p) (login p)
                    # Print_closed_skip # tr')))"
proof (intro conjI impI)
  assume a: "get_pulls rp = Inr pulls \<and> (\<forall>q\<in>set pulls. number q = n \<longrightarrow> closed_at q \<noteq> None)"
  have no: "ev \<notin> set (snd (snd (poll auto_close rp msg st)))"
    if ev: "ev = Get_issue_comments n \<or> ev = Create_issue_comment n c \<or> ev = Edit_closed n"
    for ev c
  proof (cases "pull_req_number st")
    case None
    then show ?thesis by (simp add: poll_def)
  next
    case (Some threshold)
    with a have tr: "snd (snd (poll auto_close rp msg st))
        = Get_pulls # snd (snd (poll_loop auto_close msg threshold st (rev pulls)))"
      by (simp add: poll_def split: prod.splits)
    show ?thesis
    proof
      assume "ev \<in> set (snd (snd (poll auto_close rp msg st)))"
      with tr ev have "ev \<in> set (snd (snd (poll_loop auto_close msg threshold st (rev pulls))))"
        by auto
      from poll_loop_calls_open[OF this ev] a show False by auto
    qed
  qed
  from no show "Get_issue_comments n \<notin> set (snd (snd (poll auto_close rp msg st)))" by blast
  from no show "\<forall>c. Create_issue_comment n c \<notin> set (snd (snd (poll auto_close rp msg st)))"
    by blast
  from no show "Edit_closed n \<notin> set (snd (snd (poll auto_close rp msg st)))" by blast
next
  assume "closed_at p \<noteq> None"
  then show "try_block auto_close st p comment = (st, [Print_closed_skip])"
    by (simp add: try_block_def)
next
  assume "closed_at p \<noteq> None \<and> threshold < number p \<and> msg (login p) = Inr comment"
  then show "poll_loop auto_close msg threshold st (p # ps) =
              (case poll_loop auto_close msg threshold st ps of
                 (r, st', tr') \<Rightarrow>
                   (r, st',
                    Print_pull (number p) (login p) (title p) # Render (number p) (login p)
                    # Print_closed_skip # tr'))"
    by (simp add: try_block_def split: prod.splits)
qed

theorem closed_pull_is_never_commented_witness:
  "closed_at (closed_pull 7 ''bob'') \<noteq> None
   \<and> (\<forall>c. Create_issue_comment 7 c \<notin> set (snd (snd (poll False
         (demo_repo [demo_pull 6 ''alice'', closed_pull 7 ''bob'']) demo_template
         (demo_status 5)))))
   \<and> poll False (demo_repo [demo_pull 6 ''alice'', closed_pull 7 ''bob'']) demo_template
        (demo_status 5)
      = (Inr (), demo_status 6,
         [Get_pulls, Print_pull 7 ''bob'' ''Fix'', Render 7 ''bob'', Print_closed_skip,
          Print_pull 6 ''alice'' ''Fix'', Render 6 ''alice'', Get_issue_comments 6,
          Create_issue_comment 6 ''Hello @alice'', Print_posted])"
proof -
  have hyps: "get_pulls (demo_repo [demo_pull 6 ''alice'', closed_pull 7 ''bob''])
                = Inr [demo_pull 6 ''alice'', closed_pull 7 ''bob'']
              \<and> (\<forall>q\<in>set [demo_pull 6 ''alice'', closed_pull 7 ''bob''].
                    number q = 7 \<longrightarrow> closed_at q \<noteq> None)"
    and closed: "closed_at (closed_pull 7 ''bob'') \<noteq> None"
    and step: "closed_at (closed_pull 7 ''bob'') \<noteq> None \<and> 5 < number (closed_pull 7 ''bob'')
               \<and> demo_template (login (closed_pull 7 ''bob'')) = Inr ''Hello @bob''"
    by (simp_all add: demo_repo_def demo_pull_def closed_pull_def demo_template_def)
  have rest: "poll_loop False demo_template 5 (demo_status 5) [demo_pull 6 ''alice'']
      = (Inr (), demo_status 6,
         [Print_pull 6 ''alice'' ''Fix'', Render 6 ''alice'', Get_issue_comments 6,
          Create_issue_comment 6 ''Hello @alice'', Print_posted])"
    by (simp add: demo_pull_def demo_template_def demo_status_def try_block_def strip_def
        isspace_def)
  note inst = closed_pull_is_never_commented[where rp = "demo_repo [demo_pull 6 ''alice'',
        closed_pull 7 ''bob'']" and pulls = "[demo_pull 6 ''alice'', closed_pull 7 ''bob'']"
      and n = 7 and auto_close = False and msg = demo_template and st = "demo_status 5"
      and p = "closed_pull 7 ''bob''" and threshold = 5 and comment = "''Hello @bob''"
      and ps = "[demo_pull 6 ''alice'']"]
  from inst hyps have never: "\<forall>c. Create_issue_comment 7 c \<notin> set (snd (snd (poll False
         (demo_repo [demo_pull 6 ''alice'', closed_pull 7 ''bob'']) demo_template
         (demo_status 5))))"
    by blast
  from inst step have loop: "poll_loop False demo_template 5 (demo_status 5)
        (closed_pull 7 ''bob'' # [demo_pull 6 ''alice'']) =
      (case poll_loop False demo_template 5 (demo_status 5) [demo_pull 6 ''alice''] of
         (r, st', tr') \<Rightarrow>
           (r, st',
            Print_pull (number (closed_pull 7 ''bob'')) (login (closed_pull 7 ''bob''))
              (title (closed_pull 7 ''bob''))
            # Render (number (closed_pull 7 ''bob'')) (login (closed_pull 7 ''bob''))
            # Print_closed_skip # tr'))"
    by blast
  have loop_result: "poll_loop False demo_template 5 (demo_status 5)
        [closed_pull 7 ''bob'', demo_pull 6 ''alice'']
      = (Inr (), demo_status 6,
         [Print_pull 7 ''bob'' ''Fix'', Render 7 ''bob'', Print_closed_skip,
          Print_pull 6 ''alice'' ''Fix'', Render 6 ''alice'', Get_issue_comments 6,
          Create_issue_comment 6 ''Hello @alice'', Print_posted])"
    unfolding loop rest by (simp add: demo_pull_fields)
  have mark: "pull_req_number (demo_status 5) = Some 5"
    by (simp add: demo_status_def)
  have "poll False (demo_repo [demo_pull 6 ''alice'', closed_pull 7 ''bob'']) demo_template
        (demo_status 5)
      = (Inr (), demo_status 6,
         [Get_pulls, Print_pull 7 ''bob'' ''Fix'', Render 7 ''bob'', Print_closed_skip,
          Print_pull 6 ''alice'' ''Fix'', Render 6 ''alice'', Get_issue_comments 6,
          Create_issue_comment 6 ''Hello @alice'', Print_posted])"
    by (simp add: poll_def mark demo_repo_def loop_result del: poll_loop.simps)
  with closed never show ?thesis by blast
qed

subsection \<open>The threshold and the live mark\<close>






subsection \<open>Writing the status file\<close>

lemma get_installation_token_no_dump:
  "ev \<in> set (snd (get_installation_token w client_id key_path repo_name)) \<Longrightarrow> \<not> is_dump ev"
  by (auto simp: get_installation_token_def io_bind_def call_def pure_call_def raise_def
      Let_def split: sum.splits prod.splits if_splits)

lemma get_or_refresh_token_no_dump:
  "ev \<in> set (snd (snd (get_or_refresh_token w st client_id key_path repo_name)))
     \<Longrightarrow> \<not> is_dump ev"
  using get_installation_token_no_dump[of ev w client_id key_path repo_name]
  by (auto simp: get_or_refresh_token_def refresh_def split: sum.splits prod.splits if_splits)

lemma poll_loop_no_dump:
  "ev \<in> set (snd (snd (poll_loop auto_close msg threshold st ps))) \<Longrightarrow> \<not> is_dump ev"
  by (auto dest!: poll_loop_events try_block_events)

lemma poll_no_dump:
  assumes "ev \<in> set (snd (snd (poll auto_close rp msg st)))"
  shows "\<not> is_dump ev"
proof (cases "pull_req_number st")
  case None
  with assms show ?thesis by (simp add: poll_def)
next
  case (Some threshold)
  show ?thesis
  proof (cases "get_pulls rp")
    case (Inl e)
    with Some assms show ?thesis by (simp add: poll_def)
  next
    case (Inr pulls)
    with Some assms have
      "ev = Get_pulls \<or> ev \<in> set (snd (snd (poll_loop auto_close msg threshold st (rev pulls))))"
      by (auto simp: poll_def split: prod.splits)
    with poll_loop_no_dump[of ev auto_close msg threshold st "rev pulls"] show ?thesis
      by auto
  qed
qed

text \<open>
  C8, as the code has it. \<open>main\<close> calls \<^verbatim>\<open>json.dump\<close> after \<open>poll\<close> has returned and
  nowhere else. A run that returns has written the whole status \<open>poll\<close> left, as its
  last action and once; a run that ends with an exception has not called \<^verbatim>\<open>json.dump\<close>
  and leaves the file as it was. Once the status is loaded, the token obtained, the
  template loaded and the repository looked up, the run returns exactly when \<open>poll\<close>
  returns, whatever happened to single pull requests inside the guarded block.
\<close>

theorem status_file_written_after_poll:
  "(case main cfg w f of
      (Inl e, f', tr) \<Rightarrow> f' = f \<and> (\<forall>ev\<in>set tr. \<not> is_dump ev)
    | (Inr u, f', tr) \<Rightarrow>
        (\<exists>st tr0. f' = Json st \<and> tr = tr0 @ [Json_dump (STATUS_FILE cfg) st]
                  \<and> (\<forall>ev\<in>set tr0. \<not> is_dump ev)))
   \<and> (load_status f = Inr loaded
        \<and> get_or_refresh_token w loaded (GITHUB_APP_CLIENT_ID cfg)
              (GITHUB_APP_PRIVATE_KEY_PATH cfg) (REPO_NAME cfg) = (Inr token, st1, tr1)
        \<and> template_load w (MESSAGE_PATH cfg) = Inr msg
        \<and> get_repo w token (REPO_NAME cfg) = Inr rp
      \<longrightarrow> (case poll (AUTO_CLOSE cfg) rp msg st1 of
             (Inl e, st2, tr2) \<Rightarrow>
               main cfg w f =
                 (Inl e, f,
                  Json_load (STATUS_FILE cfg) # tr1
                  @ [Template_load (MESSAGE_PATH cfg), Get_repo (REPO_NAME cfg), Print_banner]
                  @ tr2)
           | (Inr u, st2, tr2) \<Rightarrow>
               main cfg w f =
                 (Inr (), Json st2,
                  Json_load (STATUS_FILE cfg) # tr1
                  @ [Template_load (MESSAGE_PATH cfg), Get_repo (REPO_NAME cfg), Print_banner]
                  @ tr2 @ [Json_dump (STATUS_FILE cfg) st2])))"
proof (intro conjI impI)
  have tok: "\<not> is_dump ev"
    if "get_or_refresh_token w s (GITHUB_APP_CLIENT_ID cfg) (GITHUB_APP_PRIVATE_KEY_PATH cfg)
          (REPO_NAME cfg) = (r, s', tr)" "ev \<in> set tr" for s r s' tr ev
    using get_or_refresh_token_no_dump[of ev w s "GITHUB_APP_CLIENT_ID cfg"
        "GITHUB_APP_PRIVATE_KEY_PATH cfg" "REPO_NAME cfg"] that by simp
  have pl: "\<not> is_dump ev"
    if "poll ac rp' msg' s = (r, s', tr)" "ev \<in> set tr" for ac rp' msg' s r s' tr ev
    using poll_no_dump[of ev ac rp' msg' s] that by simp
  show "case main cfg w f of
      (Inl e, f', tr) \<Rightarrow> f' = f \<and> (\<forall>ev\<in>set tr. \<not> is_dump ev)
    | (Inr u, f', tr) \<Rightarrow>
        (\<exists>st tr0. f' = Json st \<and> tr = tr0 @ [Json_dump (STATUS_FILE cfg) st]
                  \<and> (\<forall>ev\<in>set tr0. \<not> is_dump ev))"
    unfolding main_def
    by (auto split: sum.splits prod.splits dest: tok pl)
next
  assume "load_status f = Inr loaded
        \<and> get_or_refresh_token w loaded (GITHUB_APP_CLIENT_ID cfg)
              (GITHUB_APP_PRIVATE_KEY_PATH cfg) (REPO_NAME cfg) = (Inr token, st1, tr1)
        \<and> template_load w (MESSAGE_PATH cfg) = Inr msg
        \<and> get_repo w token (REPO_NAME cfg) = Inr rp"
  then show "case poll (AUTO_CLOSE cfg) rp msg st1 of
             (Inl e, st2, tr2) \<Rightarrow>
               main cfg w f =
                 (Inl e, f,
                  Json_load (STATUS_FILE cfg) # tr1
                  @ [Template_load (MESSAGE_PATH cfg), Get_repo (REPO_NAME cfg), Print_banner]
                  @ tr2)
           | (Inr u, st2, tr2) \<Rightarrow>
               main cfg w f =
                 (Inr (), Json st2,
                  Json_load (STATUS_FILE cfg) # tr1
                  @ [Template_load (MESSAGE_PATH cfg), Get_repo (REPO_NAME cfg), Print_banner]
                  @ tr2 @ [Json_dump (STATUS_FILE cfg) st2])"
    by (simp add: main_def split: sum.splits prod.splits)
qed

theorem status_file_written_after_poll_witness:
  "load_status (Json (demo_status 5)) = Inr (demo_status 5)
   \<and> get_or_refresh_token flaky_world (demo_status 5) (GITHUB_APP_CLIENT_ID demo_config)
        (GITHUB_APP_PRIVATE_KEY_PATH demo_config) (REPO_NAME demo_config)
       = (Inr ''ghs_old'', demo_status 5, [])
   \<and> main demo_config flaky_world (Json (demo_status 5)) =
       (Inr (), Json (demo_status 6),
        [Json_load ''status.json'', Template_load ''message.md'', Get_repo ''org/repo'',
         Print_banner, Get_pulls,
         Print_pull 9 ''dave'' ''Fix'', Render 9 ''dave'', Get_issue_comments 9,
         Create_issue_comment 9 ''Hello @dave'', Print_error (Raised ''GithubException''),
         Print_pull 6 ''alice'' ''Fix'', Render 6 ''alice'', Get_issue_comments 6,
         Create_issue_comment 6 ''Hello @alice'', Print_posted,
         Json_dump ''status.json'' (demo_status 6)])"
proof -
  have hyps: "load_status (Json (demo_status 5)) = Inr (demo_status 5)
        \<and> get_or_refresh_token flaky_world (demo_status 5) (GITHUB_APP_CLIENT_ID demo_config)
              (GITHUB_APP_PRIVATE_KEY_PATH demo_config) (REPO_NAME demo_config)
            = (Inr ''ghs_old'', demo_status 5, [])
        \<and> template_load flaky_world (MESSAGE_PATH demo_config) = Inr demo_template
        \<and> get_repo flaky_world ''ghs_old'' (REPO_NAME demo_config)
            = Inr (demo_repo [demo_pull 6 ''alice'', unpostable_pull 9 ''dave''])"
    by (simp add: load_status_def json_load_def setdefaults_def demo_status_def
        get_or_refresh_token_def flaky_world_def demo_world_def demo_config_def
        demo_template_def fun_eq_iff)
  have polled: "poll (AUTO_CLOSE demo_config)
        (demo_repo [demo_pull 6 ''alice'', unpostable_pull 9 ''dave'']) demo_template
        (demo_status 5)
      = (Inr (), demo_status 6,
         [Get_pulls,
          Print_pull 9 ''dave'' ''Fix'', Render 9 ''dave'', Get_issue_comments 9,
          Create_issue_comment 9 ''Hello @dave'', Print_error (Raised ''GithubException''),
          Print_pull 6 ''alice'' ''Fix'', Render 6 ''alice'', Get_issue_comments 6,
          Create_issue_comment 6 ''Hello @alice'', Print_posted])"
    by (simp add: poll_def demo_repo_def demo_pull_def unpostable_pull_def demo_template_def
        demo_status_def demo_config_def try_block_def strip_def isspace_def)
  from status_file_written_after_poll[where f = "Json (demo_status 5)"
      and loaded = "demo_status 5" and w = flaky_world and cfg = demo_config
      and token = "''ghs_old''" and ?st1.0 = "demo_status 5" and ?tr1.0 = "[]"
      and msg = demo_template
      and rp = "demo_repo [demo_pull 6 ''alice'', unpostable_pull 9 ''dave'']",
      THEN conjunct2, THEN mp, OF hyps]
  have "case poll (AUTO_CLOSE demo_config)
          (demo_repo [demo_pull 6 ''alice'', unpostable_pull 9 ''dave'']) demo_template
          (demo_status 5) of
          (Inl e, st2, tr2) \<Rightarrow>
            main demo_config flaky_world (Json (demo_status 5)) =
              (Inl e, Json (demo_status 5),
               Json_load (STATUS_FILE demo_config) # []
               @ [Template_load (MESSAGE_PATH demo_config), Get_repo (REPO_NAME demo_config),
                  Print_banner] @ tr2)
        | (Inr u, st2, tr2) \<Rightarrow>
            main demo_config flaky_world (Json (demo_status 5)) =
              (Inr (), Json st2,
               Json_load (STATUS_FILE demo_config) # []
               @ [Template_load (MESSAGE_PATH demo_config), Get_repo (REPO_NAME demo_config),
                  Print_banner] @ tr2 @ [Json_dump (STATUS_FILE demo_config) st2])"
    .
  then have "main demo_config flaky_world (Json (demo_status 5)) =
       (Inr (), Json (demo_status 6),
        [Json_load ''status.json'', Template_load ''message.md'', Get_repo ''org/repo'',
         Print_banner, Get_pulls,
         Print_pull 9 ''dave'' ''Fix'', Render 9 ''dave'', Get_issue_comments 9,
         Create_issue_comment 9 ''Hello @dave'', Print_error (Raised ''GithubException''),
         Print_pull 6 ''alice'' ''Fix'', Render 6 ''alice'', Get_issue_comments 6,
         Create_issue_comment 6 ''Hello @alice'', Print_posted,
         Json_dump ''status.json'' (demo_status 6)])"
    unfolding polled by (simp add: demo_config_def)
  with hyps show ?thesis by blast
qed

text \<open>
  The claim as the specification states it has the file written in every run that reaches
  the polling. In the run below everything before the polling succeeds; the rendering for
  pull request 7 raises inside \<open>poll\<close>, the exception leaves \<open>main\<close>, and
  \<^verbatim>\<open>json.dump\<close> is not called.
\<close>

theorem render_failure_skips_save:
  "main demo_config strict_world (Json (demo_status 5)) =
     (Inl (Raised ''TemplateError''), Json (demo_status 5),
      [Json_load ''status.json'', Template_load ''message.md'', Get_repo ''org/repo'',
       Print_banner, Get_pulls, Print_pull 7 ''bob'' ''Fix'', Render 7 ''bob''])"
  by (simp add: main_def load_status_def json_load_def setdefaults_def demo_status_def
      get_or_refresh_token_def strict_world_def demo_world_def demo_config_def poll_def
      demo_repo_def try_block_def demo_pull_def strict_template_def strip_def isspace_def)

end
